theory Spec2Isabelle
  imports Complex_Main "HOL-Library.Multiset"
begin

section \<open>Data model of the audio merge subsystem\<close>

text \<open>
  The rows of the three tables behind \<^verbatim>\<open>DatabaseStorage\<close>
  (\<^verbatim>\<open>server/customAuth.ts\<close>, the storage module). Identifiers are the serial keys of
  the tables, timestamps are milliseconds, user ids are strings.
\<close>

record audioFile =
  af_id :: nat
  filename :: string
  originalName :: string
  fsize :: nat
  duration :: int
  mimeType :: string
  uploadedBy :: string
  uploadedAt :: nat

datatype status = Pending | Processing | Completed | Failed

record mergeJob =
  mj_id :: nat
  name :: string
  status :: status
  progress :: int
  outputFile :: "string option"
  removeSilence :: bool
  outputFormat :: string
  createdBy :: string
  createdAt :: nat
  completedAt :: "nat option"

record mergeJobFile =
  jobId :: nat
  audioFileId :: nat

record database =
  audioFiles :: "audioFile list"
  mergeJobs :: "mergeJob list"
  mergeJobFiles :: "mergeJobFile list"
  nextFileId :: nat
  nextJobId :: nat

text \<open>
  A \<^verbatim>\<open>Partial<InsertMergeJob>\<close> as the routes pass it to \<^verbatim>\<open>updateMergeJob\<close>: each field
  is either absent or carries the value to store.
\<close>

record jobPatch =
  set_status :: "status option"
  set_progress :: "int option"
  set_outputFile :: "string option"
  set_completedAt :: "nat option"

record insertMergeJob =
  ins_name :: string
  ins_status :: status
  ins_removeSilence :: bool
  ins_outputFormat :: string
  ins_createdBy :: string

record insertAudioFile =
  ins_filename :: string
  ins_originalName :: string
  ins_size :: nat
  ins_duration :: int
  ins_mimeType :: string
  ins_uploadedBy :: string

section \<open>The storage layer (DatabaseStorage)\<close>

text \<open>
  A JavaScript string is truthy when it is not empty; \<^verbatim>\<open>userId?: string\<close> is absent
  (\<open>None\<close>) or a string.
\<close>

definition truthy :: "string option \<Rightarrow> bool" where
  "truthy v = (case v of None \<Rightarrow> False | Some str \<Rightarrow> str \<noteq> [])"

text \<open>\<^verbatim>\<open>v || d\<close> on an optional string.\<close>

definition or_default :: "string option \<Rightarrow> string \<Rightarrow> string" where
  "or_default v d = (case v of None \<Rightarrow> d | Some str \<Rightarrow> if str = [] then d else str)"

text \<open>
  \<^verbatim>\<open>getAudioFiles\<close>: \<^verbatim>\<open>select().from(audioFiles).orderBy(desc(uploadedAt))\<close>, and
  \<^verbatim>\<open>query.where(eq(uploadedBy, userId))\<close> when \<^verbatim>\<open>userId\<close> is truthy. The query builder
  of the library sets the condition on the query it is called on and returns that query, so
  the condition holds for \<^verbatim>\<open>await query\<close> although the result of \<^verbatim>\<open>where\<close> is not assigned.
  Rows with equal timestamps keep their table order. \<^verbatim>\<open>getMergeJobs\<close> is written the same
  way.
\<close>

definition getAudioFiles :: "database \<Rightarrow> string option \<Rightarrow> audioFile list" where
  "getAudioFiles db userId =
     (let query = sort_key (\<lambda>f. - int (uploadedAt f)) (audioFiles db)
      in if truthy userId then filter (\<lambda>f. Some (uploadedBy f) = userId) query else query)"

definition getAudioFile :: "database \<Rightarrow> nat \<Rightarrow> audioFile option" where
  "getAudioFile db i = find (\<lambda>f. af_id f = i) (audioFiles db)"

text \<open>
  Modelled from the spec: the column defaults of the \<^verbatim>\<open>audioFiles\<close> table
  (\<^verbatim>\<open>shared/schema.ts\<close> is not among the sources): the key is the next serial number and
  \<^verbatim>\<open>uploadedAt\<close> defaults to the time of the insert. \<^verbatim>\<open>createAudioFile\<close> inserts the row
  and returns it.
\<close>

definition createAudioFile :: "database \<Rightarrow> insertAudioFile \<Rightarrow> nat \<Rightarrow> audioFile \<times> database" where
  "createAudioFile db file now =
     (let newFile = \<lparr>af_id = nextFileId db, filename = ins_filename file,
                      originalName = ins_originalName file, fsize = ins_size file,
                      duration = ins_duration file, mimeType = ins_mimeType file,
                      uploadedBy = ins_uploadedBy file, uploadedAt = now\<rparr>
      in (newFile, db\<lparr>audioFiles := audioFiles db @ [newFile], nextFileId := Suc (nextFileId db)\<rparr>))"

text \<open>
  \<^verbatim>\<open>deleteAudioFile\<close>: one \<^verbatim>\<open>delete ... where id = id and uploadedBy = userId returning\<close>;
  the result is whether a row was deleted.
\<close>

definition deleteAudioFile :: "database \<Rightarrow> nat \<Rightarrow> string \<Rightarrow> bool \<times> database" where
  "deleteAudioFile db i userId =
     (let result = filter (\<lambda>f. af_id f = i \<and> uploadedBy f = userId) (audioFiles db)
      in (length result > 0,
          db\<lparr>audioFiles := filter (\<lambda>f. \<not> (af_id f = i \<and> uploadedBy f = userId)) (audioFiles db)\<rparr>))"

definition getMergeJobs :: "database \<Rightarrow> string option \<Rightarrow> mergeJob list" where
  "getMergeJobs db userId =
     (let query = sort_key (\<lambda>j. - int (createdAt j)) (mergeJobs db)
      in if truthy userId then filter (\<lambda>j. Some (createdBy j) = userId) query else query)"

definition getMergeJob :: "database \<Rightarrow> nat \<Rightarrow> mergeJob option" where
  "getMergeJob db i = find (\<lambda>j. mj_id j = i) (mergeJobs db)"

text \<open>
  Modelled from the spec: the column defaults of the \<^verbatim>\<open>mergeJobs\<close> table
  (\<^verbatim>\<open>shared/schema.ts\<close> is not among the sources): the key is the next serial number,
  \<^verbatim>\<open>createdAt\<close> defaults to the time of the insert, \<^verbatim>\<open>progress\<close> starts at 0, and
  \<^verbatim>\<open>outputFile\<close> and \<^verbatim>\<open>completedAt\<close> are null until completion. \<^verbatim>\<open>createMergeJob\<close>
  inserts the row and returns it.
\<close>

definition createMergeJob :: "database \<Rightarrow> insertMergeJob \<Rightarrow> nat \<Rightarrow> mergeJob \<times> database" where
  "createMergeJob db job now =
     (let newJob = \<lparr>mj_id = nextJobId db, name = ins_name job, status = ins_status job,
                     progress = 0, outputFile = None, removeSilence = ins_removeSilence job,
                     outputFormat = ins_outputFormat job, createdBy = ins_createdBy job,
                     createdAt = now, completedAt = None\<rparr>
      in (newJob, db\<lparr>mergeJobs := mergeJobs db @ [newJob], nextJobId := Suc (nextJobId db)\<rparr>))"

text \<open>\<^verbatim>\<open>.set(job)\<close> writes the fields that are present and leaves the others.\<close>

definition set_fields :: "jobPatch \<Rightarrow> mergeJob \<Rightarrow> mergeJob" where
  "set_fields p j =
     j\<lparr>status := (case set_status p of None \<Rightarrow> status j | Some v \<Rightarrow> v),
       progress := (case set_progress p of None \<Rightarrow> progress j | Some v \<Rightarrow> v),
       outputFile := (case set_outputFile p of None \<Rightarrow> outputFile j | Some v \<Rightarrow> Some v),
       completedAt := (case set_completedAt p of None \<Rightarrow> completedAt j | Some v \<Rightarrow> Some v)\<rparr>"

text \<open>
  \<^verbatim>\<open>updateMergeJob\<close>: \<^verbatim>\<open>update(mergeJobs).set(job).where(eq(id, id)).returning()\<close>; the
  result is the first updated row, \<^verbatim>\<open>undefined\<close> when no row matched.
\<close>

definition updateMergeJob :: "database \<Rightarrow> nat \<Rightarrow> jobPatch \<Rightarrow> mergeJob option \<times> database" where
  "updateMergeJob db i job =
     (let rows = map (\<lambda>j. if mj_id j = i then set_fields job j else j) (mergeJobs db)
      in (find (\<lambda>j. mj_id j = i) rows, db\<lparr>mergeJobs := rows\<rparr>))"

text \<open>
  The elements of the \<^verbatim>\<open>fileIds\<close> array of a request body are JSON values; the route
  reads them from \<^verbatim>\<open>req.body\<close> without checking their type. Two kinds are modelled: a
  whole number that is not negative, and a string.
\<close>

datatype jsval = JNum nat | JStr string

text \<open>
  Modelled from the spec: the declaration of the \<^verbatim>\<open>mergeJobFiles\<close> and \<^verbatim>\<open>audioFiles\<close> tables
  (\<^verbatim>\<open>shared/schema.ts\<close> is not among the sources): the ids are numeric, held in 32-bit
  integer columns. The database reads a number up to the largest such integer as it is and a
  string of decimal digits as the number it writes. Every other value is taken as rejected:
  text that is not a number, and numbers beyond the range of the column.
\<close>

definition max_key :: nat where
  "max_key = 2147483647"

definition digit_of :: "char \<Rightarrow> nat option" where
  "digit_of c = (if c \<in> set ''0123456789'' then Some (of_char c - 48) else None)"

definition decimal :: "string \<Rightarrow> nat option" where
  "decimal str =
     (if str = [] then None
      else map_option (foldl (\<lambda>a x. 10 * a + x) 0) (those (map digit_of str)))"

fun num_of :: "jsval \<Rightarrow> nat option" where
  "num_of (JNum n) = (if n \<le> max_key then Some n else None)"
| "num_of (JStr str) =
     (case decimal str of None \<Rightarrow> None | Some n \<Rightarrow> if n \<le> max_key then Some n else None)"

datatype db_error = InvalidInput

text \<open>
  \<^verbatim>\<open>addJobFiles\<close> is one \<^verbatim>\<open>insert(mergeJobFiles).values(values)\<close> with a row per element,
  in the order of the array; when the database rejects a value, the statement inserts
  nothing and throws.
\<close>

definition addJobFiles :: "database \<Rightarrow> nat \<Rightarrow> jsval list \<Rightarrow> db_error + database" where
  "addJobFiles db jid fileIds =
     (case those (map num_of fileIds) of
        None \<Rightarrow> Inl InvalidInput
      | Some ids \<Rightarrow>
          Inr (db\<lparr>mergeJobFiles :=
                 mergeJobFiles db @ map (\<lambda>fileId. \<lparr>jobId = jid, audioFileId = fileId\<rparr>) ids\<rparr>))"

text \<open>
  \<^verbatim>\<open>deleteMergeJob\<close>: reads the job, refuses when it is missing or owned by someone else,
  unlinks the output file when the job has one and the file exists, then deletes the row;
  the links of the job go with it (``cascade will handle job files''). The directory
  \<^verbatim>\<open>uploads/\<close> is the set of the paths of its files.
\<close>

definition deleteMergeJob ::
  "database \<Rightarrow> string set \<Rightarrow> nat \<Rightarrow> string \<Rightarrow> bool \<times> database \<times> string set" where
  "deleteMergeJob db files i userId =
     (case find (\<lambda>j. mj_id j = i) (mergeJobs db) of
        None \<Rightarrow> (False, db, files)
      | Some job \<Rightarrow>
          if createdBy job \<noteq> userId then (False, db, files)
          else
            (let files' = (case outputFile job of
                             None \<Rightarrow> files
                           | Some f \<Rightarrow> if f = [] then files else files - {''uploads/'' @ f});
                 rowCount = length (filter (\<lambda>j. mj_id j = i) (mergeJobs db))
             in (rowCount > 0,
                 db\<lparr>mergeJobs := filter (\<lambda>j. mj_id j \<noteq> i) (mergeJobs db),
                    mergeJobFiles := filter (\<lambda>l. jobId l \<noteq> i) (mergeJobFiles db)\<rparr>,
                 files')))"

section \<open>The routes and the background task\<close>

text \<open>
  The background closure that \<^verbatim>\<open>setImmediate\<close> schedules for a job, by the point it has
  reached: queued (with the \<^verbatim>\<open>fileIds\<close> and the \<^verbatim>\<open>outputFormat\<close> of the job it captured;
  \<^verbatim>\<open>removeSilence\<close> only goes to the encoder and is left out); past the write of
  \<^verbatim>\<open>processing\<close>, about to resolve the files; inside \<^verbatim>\<open>mergeAudioFiles\<close> (with the input
  paths and the output file name); in the \<^verbatim>\<open>catch\<close> block, about to write \<^verbatim>\<open>failed\<close>;
  returned; ended by a rejection that left the closure.
\<close>

datatype task =
    Scheduled "jsval list" string
  | Resolving "jsval list" string
  | Encoding "string list" string
  | Catching
  | Finished
  | Crashed

text \<open>
  The state: the store, the files under \<^verbatim>\<open>uploads/\<close>, the background closures by job id,
  the writes of progress that the callback has issued and the store has not yet answered
  (job id and value, in the order of issue), and the number of promise rejections that
  nothing handled.
\<close>

record sys =
  store :: database
  disk :: "string set"
  tasks :: "nat \<Rightarrow> task option"
  inflight :: "(nat \<times> int) list"
  unhandled :: nat

datatype body =
    Msg string
  | FileBody audioFile
  | FilesBody "audioFile list"
  | JobBody mergeJob
  | JobsBody "mergeJob list"

datatype response = Resp nat body

record uploadedFile =
  up_filename :: string
  up_originalname :: string
  up_size :: nat
  up_mimetype :: string

record mergeBody =
  body_fileIds :: "jsval list option"
  body_removeSilence :: "bool option"
  body_outputFormat :: "string option"
  body_name :: "string option"

text \<open>
  The routes run behind \<^verbatim>\<open>isAuthenticated\<close>; \<^verbatim>\<open>userId\<close> is the id of the session's user
  (\<^verbatim>\<open>req.user.claims.sub\<close>), and the id of a route is the number that \<^verbatim>\<open>parseInt\<close> read
  from the path. A route returns its response and the state it leaves. The calls of the
  storage layer fail only where a definition says so.
\<close>

definition get_mixmerge_files :: "string \<Rightarrow> sys \<Rightarrow> response" where
  "get_mixmerge_files userId s = Resp 200 (FilesBody (getAudioFiles (store s) (Some userId)))"

text \<open>
  Modelled from the spec: \<^verbatim>\<open>upload\<close>, \<^verbatim>\<open>getAudioMetadata\<close> and \<^verbatim>\<open>deleteFile\<close> of
  \<^verbatim>\<open>server/audio.ts\<close>, which is not among the sources: the upload middleware has stored
  the file under \<^verbatim>\<open>uploads/\<close> when the route runs, the probe returns the duration or throws
  (\<open>None\<close>), and \<^verbatim>\<open>deleteFile\<close> removes the file at the path when it exists. Of the
  response to an upload only the record is kept, not the url and the metadata sent with it.
\<close>

definition deleteFile :: "string \<Rightarrow> string set \<Rightarrow> string set" where
  "deleteFile filePath files = files - {filePath}"

text \<open>
  Modelled from the spec: the upload middleware and the probe, as above.
  \<^verbatim>\<open>POST /api/mixmerge/upload\<close> answers 400 without a file, 500 when the probe throws, and
  otherwise stores the record with the duration rounded down.
\<close>

definition post_mixmerge_upload ::
  "string \<Rightarrow> uploadedFile option \<Rightarrow> real option \<Rightarrow> nat \<Rightarrow> sys \<Rightarrow> response \<times> sys" where
  "post_mixmerge_upload userId file metadata now s =
     (case file of
        None \<Rightarrow> (Resp 400 (Msg ''No file uploaded''), s)
      | Some f \<Rightarrow>
          (let s1 = s\<lparr>disk := insert (''uploads/'' @ up_filename f) (disk s)\<rparr>
           in case metadata of
                None \<Rightarrow> (Resp 500 (Msg ''Failed to upload audio file''), s1)
              | Some d \<Rightarrow>
                  (let (audioFile, db') =
                         createAudioFile (store s1)
                           \<lparr>ins_filename = up_filename f, ins_originalName = up_originalname f,
                            ins_size = up_size f, ins_duration = \<lfloor>d\<rfloor>,
                            ins_mimeType = up_mimetype f, ins_uploadedBy = userId\<rparr> now
                   in (Resp 200 (FileBody audioFile), s1\<lparr>store := db'\<rparr>))))"

definition delete_mixmerge_file :: "string \<Rightarrow> nat \<Rightarrow> sys \<Rightarrow> response \<times> sys" where
  "delete_mixmerge_file userId i s =
     (case getAudioFile (store s) i of
        None \<Rightarrow> (Resp 404 (Msg ''File not found''), s)
      | Some file \<Rightarrow>
          (let (deleted, db') = deleteAudioFile (store s) i userId
           in if \<not> deleted then (Resp 403 (Msg ''Access denied''), s\<lparr>store := db'\<rparr>)
              else (Resp 200 (Msg ''File deleted successfully''),
                    s\<lparr>store := db', disk := deleteFile (''uploads/'' @ filename file) (disk s)\<rparr>)))"

definition get_mixmerge_jobs :: "string \<Rightarrow> sys \<Rightarrow> response" where
  "get_mixmerge_jobs userId s = Resp 200 (JobsBody (getMergeJobs (store s) (Some userId)))"

text \<open>
  \<^verbatim>\<open>POST /api/mixmerge/merge\<close>. \<^verbatim>\<open>body_fileIds\<close> is \<open>None\<close> when the field is missing or
  not an array. \<^verbatim>\<open>x || d\<close> is \<open>d\<close> when \<open>x\<close> is missing, empty or false. When
  \<^verbatim>\<open>addJobFiles\<close> throws, the handler's \<^verbatim>\<open>catch\<close> answers 500 and the job that
  \<^verbatim>\<open>createMergeJob\<close> inserted stays. Otherwise the closure is queued with
  \<^verbatim>\<open>setImmediate\<close> and the row that \<^verbatim>\<open>createMergeJob\<close> returned is sent.
\<close>

definition post_mixmerge_merge :: "string \<Rightarrow> mergeBody \<Rightarrow> nat \<Rightarrow> sys \<Rightarrow> response \<times> sys" where
  "post_mixmerge_merge userId b now s =
     (case body_fileIds b of
        None \<Rightarrow> (Resp 400 (Msg ''File IDs are required''), s)
      | Some fileIds \<Rightarrow>
          if length fileIds = 0 then (Resp 400 (Msg ''File IDs are required''), s)
          else
            (let (job, db1) =
                   createMergeJob (store s)
                     \<lparr>ins_name = or_default (body_name b) ''Untitled Merge'',
                      ins_status = Pending,
                      ins_removeSilence = (case body_removeSilence b of None \<Rightarrow> False | Some r \<Rightarrow> r),
                      ins_outputFormat = or_default (body_outputFormat b) ''mp3'',
                      ins_createdBy = userId\<rparr> now
             in case addJobFiles db1 (mj_id job) fileIds of
                  Inl e \<Rightarrow> (Resp 500 (Msg ''Failed to create merge job''), s\<lparr>store := db1\<rparr>)
                | Inr db2 \<Rightarrow>
                    (Resp 200 (JobBody job),
                     s\<lparr>store := db2,
                       tasks := (tasks s)(mj_id job \<mapsto> Scheduled fileIds (outputFormat job))\<rparr>)))"

text \<open>
  \<^verbatim>\<open>GET /api/mixmerge/jobs/:id\<close>. The handler does not read the requester's id.
\<close>

definition get_mixmerge_job :: "string \<Rightarrow> nat \<Rightarrow> sys \<Rightarrow> response" where
  "get_mixmerge_job userId i s =
     (case getMergeJob (store s) i of
        None \<Rightarrow> Resp 404 (Msg ''Job not found'')
      | Some job \<Rightarrow> Resp 200 (JobBody job))"

definition delete_mixmerge_job :: "string \<Rightarrow> nat \<Rightarrow> sys \<Rightarrow> response \<times> sys" where
  "delete_mixmerge_job userId i s =
     (let (deleted, db', files') = deleteMergeJob (store s) (disk s) i userId
      in if \<not> deleted
         then (Resp 404 (Msg ''Job not found or access denied''), s\<lparr>store := db', disk := files'\<rparr>)
         else (Resp 200 (Msg ''Job deleted successfully''), s\<lparr>store := db', disk := files'\<rparr>))"

text \<open>
  The closure of \<^verbatim>\<open>setImmediate\<close>, one definition for each stretch between two of its
  \<^verbatim>\<open>await\<close>s; a stretch does nothing when the task of the job is not at its start. A
  write that the closure awaits is applied by the store, or rejected: then
  \<^verbatim>\<open>updateMergeJob\<close>, which has no handler of its own, throws at the \<^verbatim>\<open>await\<close>.
\<close>

definition no_change :: jobPatch where
  "no_change = \<lparr>set_status = None, set_progress = None, set_outputFile = None,
                 set_completedAt = None\<rparr>"

text \<open>
  \<^verbatim>\<open>await storage.updateMergeJob(job.id, { status: "processing" })\<close>, the first statement
  of the \<^verbatim>\<open>try\<close> block, applied.
\<close>

definition task_start :: "nat \<Rightarrow> sys \<Rightarrow> sys" where
  "task_start jid s =
     (case tasks s jid of
        Some (Scheduled fileIds fmt) \<Rightarrow>
          s\<lparr>store := snd (updateMergeJob (store s) jid (no_change\<lparr>set_status := Some Processing\<rparr>)),
            tasks := (tasks s)(jid \<mapsto> Resolving fileIds fmt)\<rparr>
      | _ \<Rightarrow> s)"

text \<open>
  Resolving the files: \<^verbatim>\<open>getAudioFile\<close> for each id (a query with a value that the database
  rejects throws, and control goes to the \<^verbatim>\<open>catch\<close> block), the paths
  \<^verbatim>\<open>uploads/${file?.filename}\<close>, the extension and the output file name; \<open>stem\<close> is the
  \<^verbatim>\<open>merged_<time>_<random>\<close> part of the name. Then \<^verbatim>\<open>mergeAudioFiles\<close> starts.
\<close>

definition task_resolve :: "nat \<Rightarrow> string \<Rightarrow> sys \<Rightarrow> sys" where
  "task_resolve jid stem s =
     (case tasks s jid of
        Some (Resolving fileIds fmt) \<Rightarrow>
          (case those (map num_of fileIds) of
             None \<Rightarrow> s\<lparr>tasks := (tasks s)(jid \<mapsto> Catching)\<rparr>
           | Some ids \<Rightarrow>
               (let files = map (getAudioFile (store s)) ids;
                    filePaths = map (\<lambda>file. ''uploads/'' @
                                   (case file of None \<Rightarrow> ''undefined'' | Some f \<Rightarrow> filename f)) files;
                    extension = (if fmt = ''wav'' then ''wav'' else ''mp3'');
                    outputFilename = stem @ ''.'' @ extension
                in s\<lparr>tasks := (tasks s)(jid \<mapsto> Encoding filePaths outputFilename)\<rparr>))
      | _ \<Rightarrow> s)"

text \<open>
  The progress callback: \<^verbatim>\<open>storage.updateMergeJob(job.id, { progress: Math.floor(progress) })\<close>.
  The callback does not await the promise and attaches no handler to it: the write is
  issued, and the encoder goes on.
\<close>

definition task_progress :: "nat \<Rightarrow> real \<Rightarrow> sys \<Rightarrow> sys" where
  "task_progress jid p s =
     (case tasks s jid of
        Some (Encoding filePaths outputFilename) \<Rightarrow> s\<lparr>inflight := inflight s @ [(jid, \<lfloor>p\<rfloor>)]\<rparr>
      | _ \<Rightarrow> s)"

text \<open>
  The store answers the \<open>n\<close>-th write of progress in flight, at any later time and whatever
  the task of the job does by then: it applies the write (\<^verbatim>\<open>updateMergeJob\<close> sets the
  progress of the job with that id, whatever its status), or rejects it, and the rejected
  promise is handled by nothing.
\<close>

definition progress_lands :: "nat \<Rightarrow> sys \<Rightarrow> sys" where
  "progress_lands n s =
     (if n < length (inflight s)
      then (let (jid, v) = inflight s ! n
            in s\<lparr>store := snd (updateMergeJob (store s) jid (no_change\<lparr>set_progress := Some v\<rparr>)),
                 inflight := take n (inflight s) @ drop (Suc n) (inflight s)\<rparr>)
      else s)"

definition progress_rejected :: "nat \<Rightarrow> sys \<Rightarrow> sys" where
  "progress_rejected n s =
     (if n < length (inflight s)
      then s\<lparr>inflight := take n (inflight s) @ drop (Suc n) (inflight s),
             unhandled := Suc (unhandled s)\<rparr>
      else s)"

text \<open>
  Modelled from the spec: \<^verbatim>\<open>mergeAudioFiles\<close> of \<^verbatim>\<open>server/audio.ts\<close>, which is not among
  the sources: on success the output file is on disk at the output path; on failure no
  output is left.

  When \<^verbatim>\<open>mergeAudioFiles\<close> has returned, the closure writes \<^verbatim>\<open>completed\<close>, 100, the output
  file name and the time. The write is applied and the closure returns, or the write is
  rejected and control goes to the \<^verbatim>\<open>catch\<close> block.
\<close>

definition task_succeed :: "nat \<Rightarrow> nat \<Rightarrow> sys \<Rightarrow> sys" where
  "task_succeed jid now s =
     (case tasks s jid of
        Some (Encoding filePaths outputFilename) \<Rightarrow>
          s\<lparr>store := snd (updateMergeJob (store s) jid
                        \<lparr>set_status = Some Completed, set_progress = Some 100,
                         set_outputFile = Some outputFilename, set_completedAt = Some now\<rparr>),
            disk := insert (''uploads/'' @ outputFilename) (disk s),
            tasks := (tasks s)(jid \<mapsto> Finished)\<rparr>
      | _ \<Rightarrow> s)"

definition task_succeed_rejected :: "nat \<Rightarrow> sys \<Rightarrow> sys" where
  "task_succeed_rejected jid s =
     (case tasks s jid of
        Some (Encoding filePaths outputFilename) \<Rightarrow>
          s\<lparr>disk := insert (''uploads/'' @ outputFilename) (disk s),
            tasks := (tasks s)(jid \<mapsto> Catching)\<rparr>
      | _ \<Rightarrow> s)"

text \<open>
  An exception inside the \<^verbatim>\<open>try\<close> block: the write of \<^verbatim>\<open>processing\<close> is rejected,
  resolving the files throws, or the encoder throws. Control goes to the \<^verbatim>\<open>catch\<close> block.
\<close>

definition task_fail :: "nat \<Rightarrow> sys \<Rightarrow> sys" where
  "task_fail jid s =
     (case tasks s jid of
        Some (Scheduled fileIds fmt) \<Rightarrow> s\<lparr>tasks := (tasks s)(jid \<mapsto> Catching)\<rparr>
      | Some (Resolving fileIds fmt) \<Rightarrow> s\<lparr>tasks := (tasks s)(jid \<mapsto> Catching)\<rparr>
      | Some (Encoding filePaths outputFilename) \<Rightarrow> s\<lparr>tasks := (tasks s)(jid \<mapsto> Catching)\<rparr>
      | _ \<Rightarrow> s)"

text \<open>
  The \<^verbatim>\<open>catch\<close> block: \<^verbatim>\<open>await storage.updateMergeJob(job.id, { status: "failed" })\<close>. The
  write is applied, and the closure returns; or it is rejected: the exception leaves the
  closure, whose promise \<^verbatim>\<open>setImmediate\<close> has dropped, as an unhandled rejection, and the
  job keeps its status.
\<close>

definition task_catch :: "nat \<Rightarrow> sys \<Rightarrow> sys" where
  "task_catch jid s =
     (case tasks s jid of
        Some Catching \<Rightarrow>
          s\<lparr>store := snd (updateMergeJob (store s) jid (no_change\<lparr>set_status := Some Failed\<rparr>)),
            tasks := (tasks s)(jid \<mapsto> Finished)\<rparr>
      | _ \<Rightarrow> s)"

definition task_catch_rejected :: "nat \<Rightarrow> sys \<Rightarrow> sys" where
  "task_catch_rejected jid s =
     (case tasks s jid of
        Some Catching \<Rightarrow> s\<lparr>tasks := (tasks s)(jid \<mapsto> Crashed), unhandled := Suc (unhandled s)\<rparr>
      | _ \<Rightarrow> s)"

section \<open>Runs of the system\<close>

text \<open>
  What changes the state: the requests that write, the stretches of the background tasks,
  and the answers of the store to the writes of progress in flight. A request is one step
  of a run, and so is each stretch of a task; the steps of different requests and tasks
  interleave in any order. A run starts with empty tables and
  an empty \<^verbatim>\<open>uploads/\<close> directory.
\<close>

datatype action =
    Upload string "uploadedFile option" "real option" nat
  | DeleteFile string nat
  | Merge string mergeBody nat
  | DeleteJob string nat
  | TaskStart nat
  | TaskResolve nat string
  | TaskProgress nat real
  | ProgressLands nat
  | ProgressRejected nat
  | TaskSucceed nat nat
  | TaskSucceedRejected nat
  | TaskFail nat
  | TaskCatch nat
  | TaskCatchRejected nat

fun exec :: "action \<Rightarrow> sys \<Rightarrow> sys" where
  "exec (Upload userId file metadata now) s = snd (post_mixmerge_upload userId file metadata now s)"
| "exec (DeleteFile userId i) s = snd (delete_mixmerge_file userId i s)"
| "exec (Merge userId b now) s = snd (post_mixmerge_merge userId b now s)"
| "exec (DeleteJob userId i) s = snd (delete_mixmerge_job userId i s)"
| "exec (TaskStart jid) s = task_start jid s"
| "exec (TaskResolve jid stem) s = task_resolve jid stem s"
| "exec (TaskProgress jid p) s = task_progress jid p s"
| "exec (ProgressLands n) s = progress_lands n s"
| "exec (ProgressRejected n) s = progress_rejected n s"
| "exec (TaskSucceed jid now) s = task_succeed jid now s"
| "exec (TaskSucceedRejected jid) s = task_succeed_rejected jid s"
| "exec (TaskFail jid) s = task_fail jid s"
| "exec (TaskCatch jid) s = task_catch jid s"
| "exec (TaskCatchRejected jid) s = task_catch_rejected jid s"

definition init_sys :: sys where
  "init_sys = \<lparr>store = \<lparr>audioFiles = [], mergeJobs = [], mergeJobFiles = [],
                         nextFileId = 1, nextJobId = 1\<rparr>,
               disk = {}, tasks = Map.empty, inflight = [], unhandled = 0\<rparr>"

fun run :: "action list \<Rightarrow> sys \<Rightarrow> sys" where
  "run [] s = s"
| "run (a # as) s = run as (exec a s)"

inductive reachable :: "sys \<Rightarrow> bool" where
  reachable_init: "reachable init_sys"
| reachable_exec: "reachable s \<Longrightarrow> reachable (exec a s)"

section \<open>Invariants of the runs\<close>

text \<open>
  The keys are serial: every key in a table is below the next key of the table, and no
  two rows of a table share a key; the links refer to keys of jobs that were handed out.
\<close>

definition ids_fresh :: "sys \<Rightarrow> bool" where
  "ids_fresh s \<longleftrightarrow>
     list_all (\<lambda>f. af_id f < nextFileId (store s)) (audioFiles (store s)) \<and>
     distinct (map af_id (audioFiles (store s))) \<and>
     list_all (\<lambda>j. mj_id j < nextJobId (store s)) (mergeJobs (store s)) \<and>
     distinct (map mj_id (mergeJobs (store s))) \<and>
     list_all (\<lambda>l. jobId l < nextJobId (store s)) (mergeJobFiles (store s))"

text \<open>
  The record of a job agrees with the point its background task has reached. A job whose
  links could not be inserted has no task and stays pending. The progress is not part of
  this: a write of progress can land at any time.
\<close>

definition job_task_ok :: "task option \<Rightarrow> mergeJob \<Rightarrow> bool" where
  "job_task_ok t j =
     (case t of
        None \<Rightarrow> status j = Pending \<and> outputFile j = None \<and> completedAt j = None
      | Some (Scheduled fileIds fmt) \<Rightarrow>
          status j = Pending \<and> outputFile j = None \<and> completedAt j = None
      | Some (Resolving fileIds fmt) \<Rightarrow>
          status j = Processing \<and> outputFile j = None \<and> completedAt j = None
      | Some (Encoding filePaths outputFilename) \<Rightarrow>
          status j = Processing \<and> outputFile j = None \<and> completedAt j = None
      | Some Catching \<Rightarrow>
          (status j = Pending \<or> status j = Processing) \<and> outputFile j = None \<and>
          completedAt j = None
      | Some Finished \<Rightarrow>
          (status j = Failed \<and> outputFile j = None \<and> completedAt j = None) \<or>
          (status j = Completed \<and> outputFile j \<noteq> None \<and> completedAt j \<noteq> None)
      | Some Crashed \<Rightarrow>
          (status j = Pending \<or> status j = Processing) \<and> outputFile j = None \<and>
          completedAt j = None)"

definition tasks_agree :: "sys \<Rightarrow> bool" where
  "tasks_agree s \<longleftrightarrow>
     (\<forall>j\<in>set (mergeJobs (store s)). job_task_ok (tasks s (mj_id j)) j) \<and>
     (\<forall>i. nextJobId (store s) \<le> i \<longrightarrow> tasks s i = None)"

section \<open>The order of the states of a job\<close>

text \<open>
  The transitions of the status that the closure makes, and what successive polls can see
  of them. A job goes from pending to failed when the write of \<^verbatim>\<open>processing\<close> is rejected
  and the write of \<^verbatim>\<open>failed\<close> is applied.
\<close>

fun status_next :: "status \<Rightarrow> status \<Rightarrow> bool" where
  "status_next Pending Processing = True"
| "status_next Pending Failed = True"
| "status_next Processing Completed = True"
| "status_next Processing Failed = True"
| "status_next _ _ = False"

definition status_upto :: "status \<Rightarrow> status \<Rightarrow> bool" where
  "status_upto a b \<longleftrightarrow> a = b \<or> status_next a b \<or> (a = Pending \<and> b = Completed)"

definition terminal :: "status \<Rightarrow> bool" where
  "terminal a \<longleftrightarrow> a = Completed \<or> a = Failed"

section \<open>Example states\<close>

text \<open>A store with one job, of id 1, while its encoding runs.\<close>

definition store_one_job :: database where
  "store_one_job =
     \<lparr>audioFiles = [],
      mergeJobs = [\<lparr>mj_id = 1, name = ''Untitled Merge'', status = Processing, progress = 40,
                    outputFile = None, removeSilence = False, outputFormat = ''mp3'',
                    createdBy = ''user_1'', createdAt = 10, completedAt = None\<rparr>],
      mergeJobFiles = [], nextFileId = 1, nextJobId = 3\<rparr>"

text \<open>
  Two users upload three files; then \<^verbatim>\<open>user_1\<close> asks for the merge of the files 1 and 3.
\<close>

definition upload_a :: uploadedFile where
  "upload_a = \<lparr>up_filename = ''a.mp3'', up_originalname = ''intro.mp3'', up_size = 1000,
                up_mimetype = ''audio/mpeg''\<rparr>"

definition upload_b :: uploadedFile where
  "upload_b = \<lparr>up_filename = ''b.mp3'', up_originalname = ''talk.mp3'', up_size = 2000,
                up_mimetype = ''audio/mpeg''\<rparr>"

definition upload_c :: uploadedFile where
  "upload_c = \<lparr>up_filename = ''c.wav'', up_originalname = ''outro.wav'', up_size = 3000,
                up_mimetype = ''audio/wav''\<rparr>"

definition three_uploads :: "action list" where
  "three_uploads =
     [Upload ''user_1'' (Some upload_a) (Some 2.5) 100,
      Upload ''user_2'' (Some upload_c) (Some 4) 150,
      Upload ''user_1'' (Some upload_b) (Some 3) 200]"

definition sys_files :: sys where
  "sys_files = run three_uploads init_sys"

definition merge_1_3 :: mergeBody where
  "merge_1_3 = \<lparr>body_fileIds = Some [JNum 1, JNum 3], body_removeSilence = None,
                 body_outputFormat = Some ''wav'', body_name = None\<rparr>"

definition sys_job :: sys where
  "sys_job = exec (Merge ''user_1'' merge_1_3 300) sys_files"

text \<open>
  The task of job 1 runs up to the encoder. In the first run the encoder reports 57.5
  percent and returns at once; the write of \<^verbatim>\<open>completed\<close> is applied, and then the write of
  progress, which was still in flight.
\<close>

definition run_to_encoder :: "action list" where
  "run_to_encoder =
     three_uploads @ [Merge ''user_1'' merge_1_3 300, TaskStart 1, TaskResolve 1 ''merged_400_k3x'']"

definition sys_encoder :: sys where
  "sys_encoder = run [TaskStart 1, TaskResolve 1 ''merged_400_k3x''] sys_job"

definition sys_reported :: sys where
  "sys_reported = exec (TaskProgress 1 57.5) sys_encoder"

definition sys_completed :: sys where
  "sys_completed = exec (TaskSucceed 1 500) sys_reported"

definition sys_late_progress :: sys where
  "sys_late_progress = exec (ProgressLands 0) sys_completed"

text \<open>
  In the second run the encoder reports 30 and then 57.5 percent; the second write lands
  before the first.
\<close>

definition run_two_reports :: "action list" where
  "run_two_reports = run_to_encoder @ [TaskProgress 1 30, TaskProgress 1 57.5, ProgressLands 1]"

definition sys_two_reports :: sys where
  "sys_two_reports = run [TaskProgress 1 30, TaskProgress 1 57.5, ProgressLands 1] sys_encoder"

definition sys_reordered :: sys where
  "sys_reordered = exec (ProgressLands 0) sys_two_reports"

text \<open>
  In the third run the encoder throws after its report has landed, and the store rejects
  the write of the \<^verbatim>\<open>catch\<close> block.
\<close>

definition sys_thrown :: sys where
  "sys_thrown = run [TaskProgress 1 57.5, ProgressLands 0, TaskFail 1] sys_encoder"

definition sys_crashed :: sys where
  "sys_crashed = exec (TaskCatchRejected 1) sys_thrown"

text \<open>
  In another run the store rejects the write of the report, the encoder throws, and the
  write of the \<^verbatim>\<open>catch\<close> block is applied.
\<close>

definition sys_report_rejected :: sys where
  "sys_report_rejected =
     run [TaskProgress 1 57.5, ProgressRejected 0, TaskFail 1, TaskCatch 1] sys_encoder"

text \<open>
  In the fourth run the store rejects the write of \<^verbatim>\<open>processing\<close> and applies the write of
  the \<^verbatim>\<open>catch\<close> block.
\<close>

definition run_start_rejected :: "action list" where
  "run_start_rejected = three_uploads @ [Merge ''user_1'' merge_1_3 300, TaskFail 1]"

definition sys_start_rejected :: sys where
  "sys_start_rejected = exec (TaskFail 1) sys_job"

definition sys_never_processing :: sys where
  "sys_never_processing = exec (TaskCatch 1) sys_start_rejected"

text \<open>The rows and the files of these states, written out.\<close>

definition file_a :: audioFile where
  "file_a = \<lparr>af_id = 1, filename = ''a.mp3'', originalName = ''intro.mp3'', fsize = 1000,
              duration = 2, mimeType = ''audio/mpeg'', uploadedBy = ''user_1'', uploadedAt = 100\<rparr>"

definition file_c :: audioFile where
  "file_c = \<lparr>af_id = 2, filename = ''c.wav'', originalName = ''outro.wav'', fsize = 3000,
              duration = 4, mimeType = ''audio/wav'', uploadedBy = ''user_2'', uploadedAt = 150\<rparr>"

definition file_b :: audioFile where
  "file_b = \<lparr>af_id = 3, filename = ''b.mp3'', originalName = ''talk.mp3'', fsize = 2000,
              duration = 3, mimeType = ''audio/mpeg'', uploadedBy = ''user_1'', uploadedAt = 200\<rparr>"

definition files_table :: "audioFile list" where
  "files_table = [file_a, file_c, file_b]"

definition files_on_disk :: "string set" where
  "files_on_disk = {''uploads/b.mp3'', ''uploads/c.wav'', ''uploads/a.mp3''}"

definition job_pending :: mergeJob where
  "job_pending =
     \<lparr>mj_id = 1, name = ''Untitled Merge'', status = Pending, progress = 0, outputFile = None,
      removeSilence = False, outputFormat = ''wav'', createdBy = ''user_1'', createdAt = 300,
      completedAt = None\<rparr>"

definition links_1_3 :: "mergeJobFile list" where
  "links_1_3 = [\<lparr>jobId = 1, audioFileId = 1\<rparr>, \<lparr>jobId = 1, audioFileId = 3\<rparr>]"

definition job_processing :: mergeJob where
  "job_processing = job_pending\<lparr>status := Processing\<rparr>"

definition job_completed :: mergeJob where
  "job_completed =
     job_pending\<lparr>status := Completed, progress := 100,
                  outputFile := Some ''merged_400_k3x.wav'', completedAt := Some 500\<rparr>"

definition encoder_task :: task where
  "encoder_task = Encoding [''uploads/a.mp3'', ''uploads/b.mp3''] ''merged_400_k3x.wav''"

text \<open>
  Requests with no file id, with one file id, with a file id that is not a number, with the
  id of a file that does not exist, with the output format \<^verbatim>\<open>flac\<close>, and with the file ids
  as strings of digits.
\<close>

definition merge_empty :: mergeBody where
  "merge_empty = \<lparr>body_fileIds = Some [], body_removeSilence = None,
                   body_outputFormat = Some ''mp3'', body_name = None\<rparr>"

definition merge_one_file :: mergeBody where
  "merge_one_file = \<lparr>body_fileIds = Some [JNum 1], body_removeSilence = None,
                      body_outputFormat = Some ''mp3'', body_name = None\<rparr>"

definition merge_bad_id :: mergeBody where
  "merge_bad_id = \<lparr>body_fileIds = Some [JNum 1, JStr ''x''], body_removeSilence = None,
                    body_outputFormat = Some ''mp3'', body_name = None\<rparr>"

definition merge_unknown_file :: mergeBody where
  "merge_unknown_file = \<lparr>body_fileIds = Some [JNum 1, JNum 99], body_removeSilence = None,
                          body_outputFormat = Some ''mp3'', body_name = None\<rparr>"

definition merge_flac :: mergeBody where
  "merge_flac = \<lparr>body_fileIds = Some [JNum 1, JNum 3], body_removeSilence = None,
                  body_outputFormat = Some ''flac'', body_name = None\<rparr>"

definition merge_text_ids :: mergeBody where
  "merge_text_ids = \<lparr>body_fileIds = Some [JStr ''1'', JStr ''3''], body_removeSilence = None,
                      body_outputFormat = Some ''wav'', body_name = None\<rparr>"

section \<open>Properties of the storage layer\<close>

lemmas route_defs = post_mixmerge_upload_def delete_mixmerge_file_def post_mixmerge_merge_def
  delete_mixmerge_job_def createAudioFile_def createMergeJob_def addJobFiles_def
  deleteAudioFile_def deleteMergeJob_def deleteFile_def
lemmas task_defs = task_start_def task_resolve_def task_progress_def progress_lands_def
  progress_rejected_def task_succeed_def task_succeed_rejected_def task_fail_def task_catch_def
  task_catch_rejected_def updateMergeJob_def

lemma find_None_map_id:
  "find (\<lambda>j. mj_id j = i) rows = None \<Longrightarrow>
   map (\<lambda>j. if mj_id j = i then g j else j) rows = rows"
  by (induction rows) (auto split: if_splits)

text \<open>
  C7. Updating a job id that has no record (for instance a job deleted while its background
  work was running) returns no record, raises nothing and leaves the whole store as it was.
\<close>

theorem updateMergeJob_missing_is_noop:
  "getMergeJob db i = None \<Longrightarrow> updateMergeJob db i job = (None, db)"
  by (simp add: getMergeJob_def updateMergeJob_def find_None_map_id)

theorem updateMergeJob_missing_is_noop_witness:
  "getMergeJob store_one_job 2 = None \<and>
   updateMergeJob store_one_job 2 (no_change\<lparr>set_status := Some Failed\<rparr>) = (None, store_one_job)"
proof -
  have h: "getMergeJob store_one_job 2 = None"
    by (simp add: getMergeJob_def store_one_job_def)
  show ?thesis using h updateMergeJob_missing_is_noop [OF h] by simp
qed

section \<open>The invariants hold in every reachable state\<close>

lemma mj_id_set_fields [simp]: "mj_id (set_fields p j) = mj_id j"
  by (simp add: set_fields_def)

lemma mj_id_comp_update [simp]:
  "mj_id \<circ> (\<lambda>j. if mj_id j = i then set_fields p j else j) = mj_id"
  by (auto simp: fun_eq_iff)

lemma map_mj_id_update [simp]:
  "map mj_id (map (\<lambda>j. if mj_id j = i then set_fields p j else j) rows) = map mj_id rows"
  by (induction rows) auto

lemma ids_fresh_init: "ids_fresh init_sys"
  by (simp add: ids_fresh_def init_sys_def)

lemma ids_fresh_exec:
  assumes "ids_fresh s"
  shows "ids_fresh (exec a s)"
proof (cases a)
  case (Upload u upl metadata now)
  with assms show ?thesis
    by (auto simp: ids_fresh_def route_defs Let_def list_all_iff less_SucI split: option.splits)
next
  case (DeleteFile u i)
  with assms show ?thesis
    by (auto simp: ids_fresh_def route_defs Let_def distinct_map_filter list_all_iff split: option.splits)
next
  case (Merge u b now)
  with assms show ?thesis
    by (auto simp: ids_fresh_def route_defs Let_def list_all_iff less_SucI split: option.splits sum.splits)
next
  case (DeleteJob u i)
  with assms show ?thesis
    by (auto simp: ids_fresh_def route_defs Let_def distinct_map_filter list_all_iff split: option.splits)
next
  case (ProgressLands n)
  with assms show ?thesis
    by (auto simp: ids_fresh_def task_defs Let_def list_all_iff split: prod.splits)
qed (use assms in \<open>auto simp: ids_fresh_def task_defs Let_def list_all_iff
       split: option.splits task.splits\<close>)

lemma tasks_agree_init: "tasks_agree init_sys"
  by (simp add: tasks_agree_def init_sys_def)

lemma ok_start:
  "job_task_ok (Some (Scheduled a b)) j \<Longrightarrow>
   job_task_ok (Some (Resolving a b)) (set_fields (no_change\<lparr>set_status := Some Processing\<rparr>) j)"
  by (simp add: job_task_ok_def set_fields_def no_change_def)

lemma ok_resolve:
  "job_task_ok (Some (Resolving a b)) j \<Longrightarrow> job_task_ok (Some (Encoding x y)) j"
  "job_task_ok (Some (Resolving a b)) j \<Longrightarrow> job_task_ok (Some Catching) j"
  by (simp_all add: job_task_ok_def)

lemma ok_progress:
  "job_task_ok t j \<Longrightarrow> job_task_ok t (set_fields (no_change\<lparr>set_progress := Some v\<rparr>) j)"
  by (simp add: job_task_ok_def set_fields_def no_change_def split: option.splits task.splits)

lemma ok_succeed:
  "job_task_ok (Some (Encoding x y)) j \<Longrightarrow>
   job_task_ok (Some Finished)
     (set_fields \<lparr>set_status = Some Completed, set_progress = Some 100,
                  set_outputFile = Some y, set_completedAt = Some now\<rparr> j)"
  by (simp add: job_task_ok_def set_fields_def)

lemma ok_fail:
  "job_task_ok (Some (Scheduled a b)) j \<Longrightarrow> job_task_ok (Some Catching) j"
  "job_task_ok (Some (Encoding x y)) j \<Longrightarrow> job_task_ok (Some Catching) j"
  by (simp_all add: job_task_ok_def)

lemma ok_catch:
  "job_task_ok (Some Catching) j \<Longrightarrow>
   job_task_ok (Some Finished) (set_fields (no_change\<lparr>set_status := Some Failed\<rparr>) j)"
  "job_task_ok (Some Catching) j \<Longrightarrow> job_task_ok (Some Crashed) j"
  by (simp_all add: job_task_ok_def set_fields_def no_change_def)

lemmas ok_steps = ok_start ok_resolve ok_succeed ok_fail ok_catch

lemma tasks_agree_task:
  assumes "tasks_agree s"
  shows "tasks_agree (task_start jid s)" and "tasks_agree (task_resolve jid stem s)"
    and "tasks_agree (task_progress jid p s)" and "tasks_agree (task_succeed jid now s)"
    and "tasks_agree (task_succeed_rejected jid s)" and "tasks_agree (task_fail jid s)"
    and "tasks_agree (task_catch jid s)" and "tasks_agree (task_catch_rejected jid s)"
    and "tasks_agree (progress_lands n s)" and "tasks_agree (progress_rejected n s)"
proof -
  have known: "tasks s jid \<noteq> None \<Longrightarrow> jid < nextJobId (store s)" for jid
    using assms by (auto simp: tasks_agree_def not_le [symmetric])
  have row: "x \<in> set (mergeJobs (store s)) \<Longrightarrow> tasks s (mj_id x) = Some t \<Longrightarrow>
             job_task_ok (Some t) x" for x t
    using assms by (auto simp: tasks_agree_def)
  show "tasks_agree (task_start jid s)"
    using assms known [of jid]
    by (auto simp: tasks_agree_def task_start_def updateMergeJob_def Let_def
        split: option.splits task.splits intro: ok_steps row)
  show "tasks_agree (task_resolve jid stem s)"
    using assms known [of jid]
    by (auto simp: tasks_agree_def task_resolve_def Let_def
        split: option.splits task.splits intro: ok_steps row)
  show "tasks_agree (task_progress jid p s)"
    using assms
    by (auto simp: tasks_agree_def task_progress_def split: option.splits task.splits)
  show "tasks_agree (task_succeed jid now s)"
    using assms known [of jid]
    by (auto simp: tasks_agree_def task_succeed_def updateMergeJob_def Let_def
        split: option.splits task.splits intro: ok_steps row)
  show "tasks_agree (task_succeed_rejected jid s)"
    using assms known [of jid]
    by (auto simp: tasks_agree_def task_succeed_rejected_def
        split: option.splits task.splits intro: ok_steps row)
  show "tasks_agree (task_fail jid s)"
    using assms known [of jid]
    by (auto simp: tasks_agree_def task_fail_def
        split: option.splits task.splits intro: ok_steps row)
  show "tasks_agree (task_catch jid s)"
    using assms known [of jid]
    by (auto simp: tasks_agree_def task_catch_def updateMergeJob_def Let_def
        split: option.splits task.splits intro: ok_steps row)
  show "tasks_agree (task_catch_rejected jid s)"
    using assms known [of jid]
    by (auto simp: tasks_agree_def task_catch_rejected_def
        split: option.splits task.splits intro: ok_steps row)
  show "tasks_agree (progress_lands n s)"
    using assms
    by (auto simp: tasks_agree_def progress_lands_def updateMergeJob_def Let_def
        split: prod.splits intro: ok_progress)
  show "tasks_agree (progress_rejected n s)"
    using assms by (auto simp: tasks_agree_def progress_rejected_def)
qed

lemma ok_new_job:
  "t = None \<or> t = Some (Scheduled a b) \<Longrightarrow>
   job_task_ok t \<lparr>mj_id = i, name = n, status = Pending, progress = 0, outputFile = None,
                  removeSilence = r, outputFormat = f, createdBy = u, createdAt = c,
                  completedAt = None\<rparr>"
  by (auto simp: job_task_ok_def)

lemma tasks_agree_merge:
  assumes "ids_fresh s" and "tasks_agree s"
  shows "tasks_agree (snd (post_mixmerge_merge userId b now s))"
  using assms
  by (auto simp: tasks_agree_def ids_fresh_def post_mixmerge_merge_def createMergeJob_def
      addJobFiles_def Let_def list_all_iff split: option.splits sum.splits intro!: ok_new_job)

lemma tasks_agree_exec:
  assumes "ids_fresh s" and "tasks_agree s"
  shows "tasks_agree (exec a s)"
proof (cases a)
  case (Upload u upl metadata now)
  with assms show ?thesis
    by (auto simp: tasks_agree_def post_mixmerge_upload_def createAudioFile_def Let_def
        split: option.splits)
next
  case (DeleteFile u i)
  with assms show ?thesis
    by (auto simp: tasks_agree_def delete_mixmerge_file_def deleteAudioFile_def Let_def
        split: option.splits)
next
  case (Merge u b now)
  with assms show ?thesis by (simp add: tasks_agree_merge)
next
  case (DeleteJob u i)
  with assms show ?thesis
    by (auto simp: tasks_agree_def delete_mixmerge_job_def deleteMergeJob_def Let_def
        split: option.splits)
qed (use assms in \<open>simp_all add: tasks_agree_task\<close>)

lemma reachable_invariants: "reachable s \<Longrightarrow> ids_fresh s \<and> tasks_agree s"
  by (induction rule: reachable.induct)
     (simp_all add: ids_fresh_init tasks_agree_init ids_fresh_exec tasks_agree_exec)

lemma reachable_run: "reachable s \<Longrightarrow> reachable (run as s)"
  by (induction as arbitrary: s) (simp_all add: reachable_exec)

section \<open>The example states\<close>

lemma run_append: "run (as @ bs) s = run bs (run as s)"
  by (induction as arbitrary: s) simp_all

lemma sys_files_eq:
  "sys_files = \<lparr>store = \<lparr>audioFiles = files_table, mergeJobs = [], mergeJobFiles = [],
                           nextFileId = 4, nextJobId = 1\<rparr>,
                 disk = files_on_disk, tasks = Map.empty, inflight = [], unhandled = 0\<rparr>"
  by (simp add: sys_files_def three_uploads_def upload_a_def upload_b_def upload_c_def
      init_sys_def files_table_def file_a_def file_b_def file_c_def files_on_disk_def
      post_mixmerge_upload_def createAudioFile_def Let_def)

lemma sys_job_eq:
  "sys_job = \<lparr>store = \<lparr>audioFiles = files_table, mergeJobs = [job_pending],
                         mergeJobFiles = links_1_3, nextFileId = 4, nextJobId = 2\<rparr>,
               disk = files_on_disk,
               tasks = [1 \<mapsto> Scheduled [JNum 1, JNum 3] ''wav''],
               inflight = [], unhandled = 0\<rparr>"
  by (simp add: sys_job_def sys_files_eq merge_1_3_def job_pending_def links_1_3_def
      post_mixmerge_merge_def createMergeJob_def addJobFiles_def or_default_def max_key_def
      Let_def)

lemma sys_encoder_eq:
  "sys_encoder = \<lparr>store = \<lparr>audioFiles = files_table, mergeJobs = [job_processing],
                             mergeJobFiles = links_1_3, nextFileId = 4, nextJobId = 2\<rparr>,
                   disk = files_on_disk, tasks = [1 \<mapsto> encoder_task],
                   inflight = [], unhandled = 0\<rparr>"
  by (simp add: sys_encoder_def sys_job_eq job_processing_def job_pending_def encoder_task_def
      files_table_def file_a_def file_b_def file_c_def max_key_def
      task_start_def task_resolve_def updateMergeJob_def set_fields_def
      no_change_def getAudioFile_def Let_def)

lemma sys_reported_eq:
  "sys_reported = sys_encoder\<lparr>inflight := [(1, 57)]\<rparr>"
  by (simp add: sys_reported_def sys_encoder_eq encoder_task_def task_progress_def)

lemma sys_completed_eq:
  "sys_completed = \<lparr>store = \<lparr>audioFiles = files_table, mergeJobs = [job_completed],
                               mergeJobFiles = links_1_3, nextFileId = 4, nextJobId = 2\<rparr>,
                     disk = insert ''uploads/merged_400_k3x.wav'' files_on_disk,
                     tasks = [1 \<mapsto> Finished], inflight = [(1, 57)], unhandled = 0\<rparr>"
  by (simp add: sys_completed_def sys_reported_eq sys_encoder_eq encoder_task_def
      job_processing_def job_completed_def job_pending_def
      task_succeed_def updateMergeJob_def set_fields_def Let_def)

lemma sys_late_progress_eq:
  "sys_late_progress = \<lparr>store = \<lparr>audioFiles = files_table,
                                   mergeJobs = [job_completed\<lparr>progress := 57\<rparr>],
                                   mergeJobFiles = links_1_3, nextFileId = 4, nextJobId = 2\<rparr>,
                         disk = insert ''uploads/merged_400_k3x.wav'' files_on_disk,
                         tasks = [1 \<mapsto> Finished], inflight = [], unhandled = 0\<rparr>"
  by (simp add: sys_late_progress_def sys_completed_eq job_completed_def job_pending_def
      progress_lands_def updateMergeJob_def set_fields_def no_change_def Let_def)

lemma sys_two_reports_eq:
  "sys_two_reports = sys_encoder\<lparr>store := (store sys_encoder)
                                    \<lparr>mergeJobs := [job_processing\<lparr>progress := 57\<rparr>]\<rparr>,
                                  inflight := [(1, 30)]\<rparr>"
  by (simp add: sys_two_reports_def sys_encoder_eq encoder_task_def job_processing_def
      job_pending_def task_progress_def progress_lands_def updateMergeJob_def set_fields_def
      no_change_def Let_def)

lemma sys_reordered_eq:
  "sys_reordered = sys_encoder\<lparr>store := (store sys_encoder)
                                  \<lparr>mergeJobs := [job_processing\<lparr>progress := 30\<rparr>]\<rparr>\<rparr>"
  by (simp add: sys_reordered_def sys_two_reports_eq sys_encoder_eq job_processing_def
      job_pending_def progress_lands_def updateMergeJob_def set_fields_def no_change_def Let_def)

lemma sys_thrown_eq:
  "sys_thrown = sys_encoder\<lparr>store := (store sys_encoder)
                               \<lparr>mergeJobs := [job_processing\<lparr>progress := 57\<rparr>]\<rparr>,
                             tasks := [1 \<mapsto> Catching]\<rparr>"
  by (simp add: sys_thrown_def sys_encoder_eq encoder_task_def job_processing_def
      job_pending_def task_progress_def progress_lands_def task_fail_def updateMergeJob_def
      set_fields_def no_change_def Let_def)

lemma sys_crashed_eq:
  "sys_crashed = sys_thrown\<lparr>tasks := [1 \<mapsto> Crashed], unhandled := 1\<rparr>"
  by (simp add: sys_crashed_def sys_thrown_eq sys_encoder_eq task_catch_rejected_def)


lemma sys_start_rejected_eq:
  "sys_start_rejected = sys_job\<lparr>tasks := [1 \<mapsto> Catching]\<rparr>"
  by (simp add: sys_start_rejected_def sys_job_eq task_fail_def)

lemma sys_never_processing_eq:
  "sys_never_processing = sys_job\<lparr>store := (store sys_job)
                                     \<lparr>mergeJobs := [job_pending\<lparr>status := Failed\<rparr>]\<rparr>,
                                   tasks := [1 \<mapsto> Finished]\<rparr>"
  by (simp add: sys_never_processing_def sys_start_rejected_eq sys_job_eq job_pending_def
      task_catch_def updateMergeJob_def set_fields_def no_change_def Let_def)

lemma reachable_sys_files: "reachable sys_files"
  unfolding sys_files_def by (rule reachable_run [OF reachable_init])

lemma reachable_sys_job: "reachable sys_job"
  unfolding sys_job_def by (rule reachable_exec [OF reachable_sys_files])

lemma run_to_encoder_eq: "run run_to_encoder init_sys = sys_encoder"
  by (simp add: run_to_encoder_def run_append sys_encoder_def sys_job_def sys_files_def)

lemma run_two_reports_eq: "run run_two_reports init_sys = sys_two_reports"
  by (simp add: run_two_reports_def run_append run_to_encoder_eq sys_two_reports_def)

lemma run_start_rejected_eq: "run run_start_rejected init_sys = sys_start_rejected"
  by (simp add: run_start_rejected_def run_append sys_start_rejected_def sys_job_def sys_files_def)

section \<open>The state machine of a merge job\<close>

text \<open>
  In every reachable state, whatever the order in which the writes land, a merge job has an
  output file if and only if its status is completed, a completed job has its completion
  time set, and a failed job has no output file.
\<close>

lemma output_file_iff_completed:
  assumes "reachable s" and "j \<in> set (mergeJobs (store s))"
  shows "(outputFile j \<noteq> None \<longleftrightarrow> status j = Completed) \<and>
         (status j = Completed \<longrightarrow> completedAt j \<noteq> None) \<and>
         (status j = Failed \<longrightarrow> outputFile j = None)"
proof -
  from assms have "job_task_ok (tasks s (mj_id j)) j"
    using reachable_invariants [of s] by (simp add: tasks_agree_def)
  then show ?thesis
    by (auto simp: job_task_ok_def split: option.splits task.splits)
qed

lemma reachable_sys_late_progress: "reachable sys_late_progress"
  unfolding sys_late_progress_def sys_completed_def sys_reported_def sys_encoder_def
  by (intro reachable_exec reachable_run reachable_sys_job)

text \<open>
  C3 fails on the progress of a completed job. The encoder reports 57.5 percent and
  returns; the callback's write of 57 is still in flight when the closure writes
  \<^verbatim>\<open>completed\<close> and 100; then the write of 57 lands. The job is completed, with its output
  file and its completion time, and its progress is 57.
\<close>

theorem late_progress_after_completed:
  "reachable sys_late_progress \<and>
   getMergeJob (store sys_completed) 1 = Some job_completed \<and>
   inflight sys_completed = [(1, 57)] \<and>
   getMergeJob (store sys_late_progress) 1 = Some (job_completed\<lparr>progress := 57\<rparr>) \<and>
   status (job_completed\<lparr>progress := 57\<rparr>) = Completed \<and>
   outputFile (job_completed\<lparr>progress := 57\<rparr>) = Some ''merged_400_k3x.wav'' \<and>
   progress (job_completed\<lparr>progress := 57\<rparr>) \<noteq> 100"
  using reachable_sys_late_progress
  by (simp add: sys_completed_eq sys_late_progress_eq getMergeJob_def job_completed_def
      job_pending_def)

section \<open>Creating a merge job\<close>

lemma find_append_fresh:
  "\<forall>x\<in>set xs. \<not> P x \<Longrightarrow> find P (xs @ [y]) = (if P y then Some y else None)"
  by (induction xs) auto

text \<open>
  C1, as the code has it. A create-merge-job request whose file id list is missing, not an
  array or empty is rejected with the validation error (400, ``File IDs are required''),
  and nothing is created or changed.
\<close>

theorem merge_validation:
  "body_fileIds b = None \<or> body_fileIds b = Some [] \<Longrightarrow>
   post_mixmerge_merge userId b now s = (Resp 400 (Msg ''File IDs are required''), s)"
  by (auto simp: post_mixmerge_merge_def)

theorem merge_validation_witness:
  "body_fileIds merge_empty = Some [] \<and>
   post_mixmerge_merge ''user_1'' merge_empty 300 sys_files
     = (Resp 400 (Msg ''File IDs are required''), sys_files)"
proof -
  have h: "body_fileIds merge_empty = None \<or> body_fileIds merge_empty = Some []"
    by (simp add: merge_empty_def)
  have e: "body_fileIds merge_empty = Some []" by (simp add: merge_empty_def)
  show ?thesis
    using e merge_validation [OF h, of "''user_1''" 300 sys_files] by simp
qed

text \<open>
  C1 as stated fails. A request with exactly one file id, of an existing file, is answered
  with the new job, and the job record and its link are created. A request that names a
  file that does not exist, and a request for the output format \<^verbatim>\<open>flac\<close>, are not answered
  with the validation error either; the first leaves a job record.
\<close>

theorem merge_one_file_counterexample:
  "body_fileIds merge_one_file = Some [JNum 1] \<and> length [JNum 1] < 2 \<and>
   getAudioFile (store sys_files) 1 = Some file_a \<and>
   fst (post_mixmerge_merge ''user_1'' merge_one_file 300 sys_files)
     = Resp 200 (JobBody (job_pending\<lparr>outputFormat := ''mp3''\<rparr>)) \<and>
   mergeJobs (store (snd (post_mixmerge_merge ''user_1'' merge_one_file 300 sys_files)))
     = [job_pending\<lparr>outputFormat := ''mp3''\<rparr>] \<and>
   mergeJobFiles (store (snd (post_mixmerge_merge ''user_1'' merge_one_file 300 sys_files)))
     = [\<lparr>jobId = 1, audioFileId = 1\<rparr>] \<and>
   body_fileIds merge_unknown_file = Some [JNum 1, JNum 99] \<and>
   getAudioFile (store sys_files) 99 = None \<and>
   fst (post_mixmerge_merge ''user_1'' merge_unknown_file 300 sys_files)
     \<noteq> Resp 400 (Msg ''File IDs are required'') \<and>
   mergeJobs (store (snd (post_mixmerge_merge ''user_1'' merge_unknown_file 300 sys_files)))
     = [job_pending\<lparr>outputFormat := ''mp3''\<rparr>] \<and>
   body_outputFormat merge_flac = Some ''flac'' \<and> ''flac'' \<noteq> ''mp3'' \<and> ''flac'' \<noteq> ''wav'' \<and>
   fst (post_mixmerge_merge ''user_1'' merge_flac 300 sys_files)
     \<noteq> Resp 400 (Msg ''File IDs are required'')"
  by (simp add: sys_files_eq merge_one_file_def merge_unknown_file_def merge_flac_def
      job_pending_def files_table_def file_a_def file_b_def file_c_def getAudioFile_def
      post_mixmerge_merge_def createMergeJob_def addJobFiles_def or_default_def max_key_def Let_def)

text \<open>
  C4. A create-merge-job request with a non-empty list of numeric file ids is answered
  with the new job in status pending; when the response is sent the stored job is still
  pending and its background task is only queued; the write of processing is the first
  step of that task.
\<close>

theorem merge_returns_pending_job:
  assumes "reachable s" and "body_fileIds b = Some fileIds" and "fileIds \<noteq> []"
    and "those (map num_of fileIds) = Some ids"
  shows "\<exists>job. post_mixmerge_merge userId b now s =
            (Resp 200 (JobBody job), snd (post_mixmerge_merge userId b now s)) \<and>
           status job = Pending \<and> progress job = 0 \<and> createdBy job = userId \<and>
           getMergeJob (store (snd (post_mixmerge_merge userId b now s))) (mj_id job) = Some job \<and>
           tasks (snd (post_mixmerge_merge userId b now s)) (mj_id job)
             = Some (Scheduled fileIds (outputFormat job)) \<and>
           getMergeJob (store (exec (TaskStart (mj_id job)) (snd (post_mixmerge_merge userId b now s))))
             (mj_id job) = Some (job\<lparr>status := Processing\<rparr>)"
proof -
  from assms(1) have "ids_fresh s" by (simp add: reachable_invariants)
  then have fresh: "\<forall>j\<in>set (mergeJobs (store s)). \<not> mj_id j = nextJobId (store s)"
    by (auto simp: ids_fresh_def list_all_iff)
  show ?thesis
    using assms(2-4) fresh
    by (simp add: post_mixmerge_merge_def createMergeJob_def addJobFiles_def Let_def
        getMergeJob_def find_append_fresh task_start_def updateMergeJob_def set_fields_def
        no_change_def)
qed

theorem merge_returns_pending_job_witness:
  "reachable sys_files \<and> body_fileIds merge_1_3 = Some [JNum 1, JNum 3] \<and>
   [JNum 1, JNum 3] \<noteq> [] \<and> those (map num_of [JNum 1, JNum 3]) = Some [1, 3] \<and>
   post_mixmerge_merge ''user_1'' merge_1_3 300 sys_files = (Resp 200 (JobBody job_pending), sys_job) \<and>
   status job_pending = Pending \<and>
   getMergeJob (store sys_job) 1 = Some job_pending \<and>
   tasks sys_job 1 = Some (Scheduled [JNum 1, JNum 3] ''wav'') \<and>
   getMergeJob (store (exec (TaskStart 1) sys_job)) 1 = Some (job_pending\<lparr>status := Processing\<rparr>)"
proof -
  have h2: "body_fileIds merge_1_3 = Some [JNum 1, JNum 3]" by (simp add: merge_1_3_def)
  have h3: "[JNum 1, JNum 3] \<noteq> []" by simp
  have h4: "those (map num_of [JNum 1, JNum 3]) = Some [1, 3]" by (simp add: max_key_def)
  have e: "post_mixmerge_merge ''user_1'' merge_1_3 300 sys_files
           = (Resp 200 (JobBody job_pending), sys_job)"
    by (simp add: sys_job_eq sys_files_eq merge_1_3_def job_pending_def links_1_3_def
        post_mixmerge_merge_def createMergeJob_def addJobFiles_def or_default_def max_key_def
        Let_def)
  show ?thesis
    using merge_returns_pending_job [OF reachable_sys_files h2 h3 h4, of "''user_1''" 300]
      reachable_sys_files h2 h4 e
    by (simp add: sys_job_eq getMergeJob_def job_pending_def task_start_def updateMergeJob_def
        set_fields_def no_change_def Let_def)
qed

lemma those_map_Some: "those (map f xs) = Some ys \<Longrightarrow> map Some ys = map f xs"
  by (induction xs arbitrary: ys) (auto split: option.splits)

text \<open>
  C8, as the code has it. Whenever a create-merge-job request is answered with the new job,
  the job record is stored and has its complete, ordered set of links at that point, one
  for each element of the file id list and in its order, and the background task of the job
  is only queued.
\<close>

theorem merge_links_after_job:
  assumes "reachable s" and "body_fileIds b = Some fileIds"
    and "fst (post_mixmerge_merge userId b now s) = Resp 200 (JobBody job)"
  shows "getMergeJob (store (snd (post_mixmerge_merge userId b now s))) (mj_id job) = Some job \<and>
         map (\<lambda>l. Some (audioFileId l))
           (filter (\<lambda>l. jobId l = mj_id job)
              (mergeJobFiles (store (snd (post_mixmerge_merge userId b now s)))))
           = map num_of fileIds \<and>
         tasks (snd (post_mixmerge_merge userId b now s)) (mj_id job)
           = Some (Scheduled fileIds (outputFormat job))"
proof -
  from assms(1) have inv: "ids_fresh s" by (simp add: reachable_invariants)
  from inv have fresh: "\<forall>j\<in>set (mergeJobs (store s)). \<not> mj_id j = nextJobId (store s)"
    by (auto simp: ids_fresh_def list_all_iff)
  from inv have nolinks: "filter (\<lambda>l. jobId l = nextJobId (store s)) (mergeJobFiles (store s)) = []"
    by (auto simp: ids_fresh_def list_all_iff filter_empty_conv)
  from assms(2,3) obtain ids where ids: "those (map num_of fileIds) = Some ids"
    by (auto simp: post_mixmerge_merge_def createMergeJob_def addJobFiles_def Let_def
        split: if_splits option.splits)
  have m: "map Some ids = map num_of fileIds" using ids by (rule those_map_Some)
  show ?thesis
    using assms(2,3) fresh nolinks ids m
    by (auto simp: post_mixmerge_merge_def createMergeJob_def addJobFiles_def Let_def
        getMergeJob_def find_append_fresh comp_def split: if_splits)
qed

theorem merge_links_after_job_witness:
  "reachable sys_files \<and> body_fileIds merge_1_3 = Some [JNum 1, JNum 3] \<and>
   fst (post_mixmerge_merge ''user_1'' merge_1_3 300 sys_files) = Resp 200 (JobBody job_pending) \<and>
   getMergeJob (store sys_job) 1 = Some job_pending \<and>
   map audioFileId (filter (\<lambda>l. jobId l = 1) (mergeJobFiles (store sys_job))) = [1, 3] \<and>
   tasks sys_job 1 = Some (Scheduled [JNum 1, JNum 3] ''wav'')"
proof -
  have h2: "body_fileIds merge_1_3 = Some [JNum 1, JNum 3]" by (simp add: merge_1_3_def)
  have e: "post_mixmerge_merge ''user_1'' merge_1_3 300 sys_files
           = (Resp 200 (JobBody job_pending), sys_job)"
    by (simp add: sys_job_eq sys_files_eq merge_1_3_def job_pending_def links_1_3_def
        post_mixmerge_merge_def createMergeJob_def addJobFiles_def or_default_def max_key_def
        Let_def)
  then have h3: "fst (post_mixmerge_merge ''user_1'' merge_1_3 300 sys_files)
                 = Resp 200 (JobBody job_pending)" by simp
  show ?thesis
    using merge_links_after_job [OF reachable_sys_files h2 h3] reachable_sys_files h2 h3
    by (simp add: e sys_job_eq links_1_3_def job_pending_def)
qed

text \<open>The same request with the ids as strings of digits is answered and linked alike.\<close>

lemma merge_text_ids_links:
  "fst (post_mixmerge_merge ''user_1'' merge_text_ids 300 sys_files) = Resp 200 (JobBody job_pending) \<and>
   mergeJobFiles (store (snd (post_mixmerge_merge ''user_1'' merge_text_ids 300 sys_files)))
     = links_1_3"
  by (simp add: sys_files_eq merge_text_ids_def job_pending_def links_1_3_def
      post_mixmerge_merge_def createMergeJob_def addJobFiles_def or_default_def max_key_def
      decimal_def digit_of_def Let_def)

text \<open>
  C8 as stated fails: the record and the links are written by two inserts. With a file id
  that is not a number the insert of the links throws after the job record is stored: the
  request is answered with 500, and the job record exists without any link.
\<close>

theorem merge_links_not_atomic_counterexample:
  "body_fileIds merge_bad_id = Some [JNum 1, JStr ''x''] \<and>
   fst (post_mixmerge_merge ''user_1'' merge_bad_id 300 sys_files)
     = Resp 500 (Msg ''Failed to create merge job'') \<and>
   mergeJobs (store (snd (post_mixmerge_merge ''user_1'' merge_bad_id 300 sys_files)))
     = [job_pending\<lparr>outputFormat := ''mp3''\<rparr>] \<and>
   mergeJobFiles (store (snd (post_mixmerge_merge ''user_1'' merge_bad_id 300 sys_files))) = []"
  by (simp add: sys_files_eq merge_bad_id_def job_pending_def
      post_mixmerge_merge_def createMergeJob_def addJobFiles_def or_default_def max_key_def
      decimal_def digit_of_def Let_def)

section \<open>Ownership of jobs and files\<close>

text \<open>
  C2 fails on the read: the job of \<^verbatim>\<open>user_1\<close> is returned to \<^verbatim>\<open>user_2\<close>.
\<close>

theorem get_job_ignores_requester:
  "createdBy job_pending = ''user_1'' \<and> ''user_2'' \<noteq> createdBy job_pending \<and>
   get_mixmerge_job ''user_2'' 1 sys_job = Resp 200 (JobBody job_pending)"
  by (simp add: get_mixmerge_job_def getMergeJob_def sys_job_eq job_pending_def)

text \<open>The delete does check the owner: for another requester nothing changes.\<close>

lemma delete_job_requires_owner:
  "getMergeJob (store s) i = Some j \<Longrightarrow> createdBy j \<noteq> userId \<Longrightarrow>
   delete_mixmerge_job userId i s = (Resp 404 (Msg ''Job not found or access denied''), s)"
  by (simp add: delete_mixmerge_job_def deleteMergeJob_def getMergeJob_def)




section \<open>The order of the states of a job\<close>

lemma find_update:
  "find (\<lambda>j. mj_id j = i) (map (\<lambda>j. if mj_id j = k then set_fields p j else j) rows)
   = (if i = k then map_option (set_fields p) (find (\<lambda>j. mj_id j = i) rows)
      else find (\<lambda>j. mj_id j = i) rows)"
  by (induction rows) auto

lemma getMergeJob_update:
  "getMergeJob (snd (updateMergeJob db k p)) i
   = (if i = k then map_option (set_fields p) (getMergeJob db i) else getMergeJob db i)"
  by (simp add: getMergeJob_def updateMergeJob_def Let_def find_update)

lemma getMergeJob_mem: "getMergeJob db i = Some j \<Longrightarrow> j \<in> set (mergeJobs db) \<and> mj_id j = i"
  by (auto simp: getMergeJob_def find_Some_iff)

lemma task_step_status:
  assumes agree: "tasks_agree s" and j: "getMergeJob (store s) jid = Some j"
  shows "getMergeJob (store (task_start k s)) jid = Some j' \<Longrightarrow>
           status j' = status j \<or> status_next (status j) (status j')"
    and "getMergeJob (store (task_succeed k now s)) jid = Some j' \<Longrightarrow>
           status j' = status j \<or> status_next (status j) (status j')"
    and "getMergeJob (store (task_catch k s)) jid = Some j' \<Longrightarrow>
           status j' = status j \<or> status_next (status j) (status j')"
    and "getMergeJob (store (progress_lands n s)) jid = Some j' \<Longrightarrow> status j' = status j"
proof -
  have ok: "job_task_ok (tasks s jid) j"
    using agree getMergeJob_mem [OF j] by (auto simp: tasks_agree_def)
  show "getMergeJob (store (task_start k s)) jid = Some j' \<Longrightarrow>
           status j' = status j \<or> status_next (status j) (status j')"
    using ok j
    by (auto simp: task_start_def getMergeJob_update job_task_ok_def
        set_fields_def no_change_def split: option.splits task.splits if_splits)
  show "getMergeJob (store (task_succeed k now s)) jid = Some j' \<Longrightarrow>
           status j' = status j \<or> status_next (status j) (status j')"
    using ok j
    by (auto simp: task_succeed_def getMergeJob_update job_task_ok_def
        set_fields_def split: option.splits task.splits if_splits)
  show "getMergeJob (store (task_catch k s)) jid = Some j' \<Longrightarrow>
           status j' = status j \<or> status_next (status j) (status j')"
    using ok j
    by (auto simp: task_catch_def getMergeJob_update job_task_ok_def
        set_fields_def no_change_def split: option.splits task.splits if_splits)
  show "getMergeJob (store (progress_lands n s)) jid = Some j' \<Longrightarrow> status j' = status j"
    using j
    by (auto simp: progress_lands_def getMergeJob_update set_fields_def no_change_def Let_def
        split: prod.splits if_splits)
qed

lemma task_step_store:
  "store (task_resolve k stem s) = store s" "store (task_progress k p s) = store s"
  "store (progress_rejected n s) = store s" "store (task_succeed_rejected k s) = store s"
  "store (task_fail k s) = store s" "store (task_catch_rejected k s) = store s"
  by (auto simp: task_resolve_def task_progress_def progress_rejected_def
      task_succeed_rejected_def task_fail_def task_catch_rejected_def Let_def
      split: option.splits task.splits)

lemma find_append_old: "find P xs = Some x \<Longrightarrow> find P (xs @ ys) = Some x"
  by (induction xs) auto

lemma find_filter_key:
  "find (\<lambda>j. k j = a) (filter (\<lambda>j. k j \<noteq> i) xs)
   = (if a = i then None else find (\<lambda>j. k j = a) xs)"
  by (induction xs) auto

lemma request_step_job:
  assumes fresh: "ids_fresh s" and j: "getMergeJob (store s) jid = Some j"
  shows "getMergeJob (store (snd (post_mixmerge_upload u upl metadata now s))) jid = Some j'
         \<Longrightarrow> j' = j"
    and "getMergeJob (store (snd (delete_mixmerge_file u i s))) jid = Some j' \<Longrightarrow> j' = j"
    and "getMergeJob (store (snd (post_mixmerge_merge u b now s))) jid = Some j' \<Longrightarrow> j' = j"
    and "getMergeJob (store (snd (delete_mixmerge_job u i s))) jid = Some j' \<Longrightarrow> j' = j"
proof -
  have old: "jid \<noteq> nextJobId (store s)"
    using fresh getMergeJob_mem [OF j] by (auto simp: ids_fresh_def list_all_iff)
  show "getMergeJob (store (snd (post_mixmerge_upload u upl metadata now s))) jid = Some j'
         \<Longrightarrow> j' = j"
    using j by (auto simp: post_mixmerge_upload_def createAudioFile_def getMergeJob_def Let_def
        split: option.splits)
  show "getMergeJob (store (snd (delete_mixmerge_file u i s))) jid = Some j' \<Longrightarrow> j' = j"
    using j by (auto simp: delete_mixmerge_file_def deleteAudioFile_def getMergeJob_def Let_def
        split: option.splits if_splits)
  show "getMergeJob (store (snd (post_mixmerge_merge u b now s))) jid = Some j' \<Longrightarrow> j' = j"
    using j old
    by (auto simp: post_mixmerge_merge_def createMergeJob_def addJobFiles_def getMergeJob_def
        Let_def find_append_old split: option.splits if_splits sum.splits)
  show "getMergeJob (store (snd (delete_mixmerge_job u i s))) jid = Some j' \<Longrightarrow> j' = j"
    using j
    by (auto simp: delete_mixmerge_job_def deleteMergeJob_def getMergeJob_def Let_def
        find_filter_key split: option.splits if_splits)
qed

lemma exec_step_status:
  assumes "ids_fresh s" and "tasks_agree s"
    and "getMergeJob (store s) jid = Some j" and "getMergeJob (store (exec a s)) jid = Some j'"
  shows "status j' = status j \<or> status_next (status j) (status j')"
proof (cases a)
  case (Upload u upl metadata now)
  with assms show ?thesis by (auto dest: request_step_job)
next
  case (DeleteFile u i)
  with assms show ?thesis by (auto dest: request_step_job)
next
  case (Merge u b now)
  with assms show ?thesis by (auto dest: request_step_job)
next
  case (DeleteJob u i)
  with assms show ?thesis by (auto dest: request_step_job)
next
  case (TaskStart k)
  with assms show ?thesis using task_step_status(1) [of s jid j k j'] by simp
next
  case (TaskSucceed k now)
  with assms show ?thesis using task_step_status(2) [of s jid j k now j'] by simp
next
  case (TaskCatch k)
  with assms show ?thesis using task_step_status(3) [of s jid j k j'] by simp
next
  case (ProgressLands n)
  with assms show ?thesis using task_step_status(4) [of s jid j n j'] by simp
qed (use assms in \<open>simp_all add: task_step_store\<close>)

lemma nextJobId_exec: "nextJobId (store s) \<le> nextJobId (store (exec a s))"
  by (cases a)
     (auto simp: post_mixmerge_upload_def createAudioFile_def delete_mixmerge_file_def
        deleteAudioFile_def post_mixmerge_merge_def createMergeJob_def addJobFiles_def
        delete_mixmerge_job_def deleteMergeJob_def task_defs Let_def
        split: option.splits task.splits sum.splits if_splits prod.splits)

lemma absent_exec:
  assumes "jid < nextJobId (store s)" and "getMergeJob (store s) jid = None"
  shows "getMergeJob (store (exec a s)) jid = None"
proof (cases a)
  case (Merge u b now)
  with assms show ?thesis
    by (auto simp: post_mixmerge_merge_def createMergeJob_def addJobFiles_def getMergeJob_def
        Let_def find_None_iff split: option.splits sum.splits if_splits)
next
  case (DeleteJob u i)
  with assms show ?thesis
    by (auto simp: delete_mixmerge_job_def deleteMergeJob_def getMergeJob_def Let_def
        find_None_iff split: option.splits if_splits)
next
  case (Upload u upl metadata now)
  with assms show ?thesis
    by (auto simp: post_mixmerge_upload_def createAudioFile_def getMergeJob_def Let_def
        split: option.splits)
next
  case (DeleteFile u i)
  with assms show ?thesis
    by (auto simp: delete_mixmerge_file_def deleteAudioFile_def getMergeJob_def Let_def
        split: option.splits)
qed (use assms in \<open>auto simp: task_start_def task_resolve_def task_progress_def
        progress_lands_def progress_rejected_def task_succeed_def task_succeed_rejected_def
        task_fail_def task_catch_def task_catch_rejected_def getMergeJob_update Let_def
        split: option.splits task.splits if_splits prod.splits\<close>)

lemma absent_run:
  "jid < nextJobId (store s) \<Longrightarrow> getMergeJob (store s) jid = None \<Longrightarrow>
   getMergeJob (store (run bs s)) jid = None"
proof (induction bs arbitrary: s)
  case Nil
  then show ?case by simp
next
  case (Cons a bs)
  have "jid < nextJobId (store (exec a s))"
    using Cons.prems(1) nextJobId_exec [of s a] by simp
  moreover have "getMergeJob (store (exec a s)) jid = None"
    using Cons.prems by (rule absent_exec)
  ultimately show ?case using Cons.IH by simp
qed

lemma status_upto_step:
  "st1 = st \<or> status_next st st1 \<Longrightarrow> status_upto st1 st' \<Longrightarrow> status_upto st st'"
  by (cases st; cases st1; cases st') (auto simp: status_upto_def)

lemma run_status:
  assumes "ids_fresh s" and "tasks_agree s"
    and "getMergeJob (store s) jid = Some j" and "getMergeJob (store (run bs s)) jid = Some j'"
  shows "status_upto (status j) (status j')"
  using assms
proof (induction bs arbitrary: s j)
  case Nil
  then show ?case by (simp add: status_upto_def)
next
  case (Cons a bs)
  have old: "jid < nextJobId (store s)"
    using Cons.prems(1) getMergeJob_mem [OF Cons.prems(3)]
    by (auto simp: ids_fresh_def list_all_iff)
  have inv: "ids_fresh (exec a s)" "tasks_agree (exec a s)"
    using Cons.prems(1,2) by (simp_all add: ids_fresh_exec tasks_agree_exec)
  show ?case
  proof (cases "getMergeJob (store (exec a s)) jid")
    case None
    have "jid < nextJobId (store (exec a s))"
      using old nextJobId_exec [of s a] by simp
    then have "getMergeJob (store (run bs (exec a s))) jid = None"
      using None by (rule absent_run)
    with Cons.prems(4) show ?thesis by simp
  next
    case (Some j1)
    have "status j1 = status j \<or> status_next (status j) (status j1)"
      using Cons.prems(1,2,3) Some by (rule exec_step_status)
    moreover have "status_upto (status j1) (status j')"
      using Cons.IH [OF inv Some] Cons.prems(4) by simp
    ultimately show ?thesis by (rule status_upto_step)
  qed
qed

text \<open>
  C5, as the code has it. Take any run and two polls of the same job, one after the other.
  The status has moved only along pending, processing and then completed or failed, or
  from pending to failed; a job seen in a terminal status is seen in that status ever
  after; and one step of the run moves the status by at most one transition.
\<close>

theorem status_order:
  assumes "getMergeJob (store (run as init_sys)) jid = Some j"
    and "getMergeJob (store (run (as @ bs) init_sys)) jid = Some j'"
  shows "status_upto (status j) (status j') \<and>
         (terminal (status j) \<longrightarrow> status j' = status j) \<and>
         (length bs = 1 \<longrightarrow> status j' = status j \<or> status_next (status j) (status j'))"
proof -
  let ?s = "run as init_sys"
  have r: "reachable ?s" by (rule reachable_run [OF reachable_init])
  then have inv: "ids_fresh ?s" "tasks_agree ?s" by (simp_all add: reachable_invariants)
  have j': "getMergeJob (store (run bs ?s)) jid = Some j'"
    using assms(2) by (simp add: run_append)
  have u: "status_upto (status j) (status j')"
    using inv assms(1) j' by (rule run_status)
  have t: "status j' = status j" if "terminal (status j)"
    using u that by (cases "status j'") (auto simp: status_upto_def terminal_def)
  have o: "status j' = status j \<or> status_next (status j) (status j')" if "length bs = 1"
  proof -
    from that obtain a where a: "bs = [a]" by (cases bs) auto
    show ?thesis
      using inv assms(1) by (rule exec_step_status) (use a j' in simp)
  qed
  from u t o show ?thesis by simp
qed

theorem status_order_witness:
  "getMergeJob (store (run run_to_encoder init_sys)) 1 = Some job_processing \<and>
   getMergeJob (store (run (run_to_encoder @ [TaskProgress 1 57.5, TaskSucceed 1 500]) init_sys)) 1
     = Some job_completed \<and>
   status job_processing = Processing \<and> status job_completed = Completed \<and>
   status_upto (status job_processing) (status job_completed) \<and>
   status_next (status job_processing) (status job_completed)"
proof -
  have h1: "getMergeJob (store (run run_to_encoder init_sys)) 1 = Some job_processing"
    by (simp add: run_to_encoder_eq sys_encoder_eq getMergeJob_def job_processing_def
        job_pending_def)
  have "run (run_to_encoder @ [TaskProgress 1 57.5, TaskSucceed 1 500]) init_sys = sys_completed"
    by (simp add: run_append run_to_encoder_eq sys_completed_def sys_reported_def)
  then have h2: "getMergeJob (store (run (run_to_encoder @ [TaskProgress 1 57.5, TaskSucceed 1 500])
                   init_sys)) 1 = Some job_completed"
    by (simp add: sys_completed_eq getMergeJob_def job_completed_def job_pending_def)
  show ?thesis
    using status_order [OF h1 h2] h1 h2
    by (simp add: job_processing_def job_completed_def job_pending_def)
qed

text \<open>
  C5 as stated fails. The encoder reports 30 and then 57.5 percent, and the second write
  lands before the first: a poll sees progress 57 and the next poll sees 30, while the job
  is processing. And when the store rejects the write of \<^verbatim>\<open>processing\<close> and applies the
  write of the \<^verbatim>\<open>catch\<close> block, the job goes from pending to failed in one step and is never
  processing.
\<close>

theorem progress_and_status_counterexample:
  "(30 :: real) \<le> 57.5 \<and>
   getMergeJob (store (run run_two_reports init_sys)) 1 = Some (job_processing\<lparr>progress := 57\<rparr>) \<and>
   getMergeJob (store (run (run_two_reports @ [ProgressLands 0]) init_sys)) 1
     = Some (job_processing\<lparr>progress := 30\<rparr>) \<and>
   status (job_processing\<lparr>progress := 30\<rparr>) = Processing \<and>
   \<not> progress (job_processing\<lparr>progress := 57\<rparr>) \<le> progress (job_processing\<lparr>progress := 30\<rparr>) \<and>
   getMergeJob (store (run run_start_rejected init_sys)) 1 = Some job_pending \<and>
   getMergeJob (store (run (run_start_rejected @ [TaskCatch 1]) init_sys)) 1
     = Some (job_pending\<lparr>status := Failed\<rparr>) \<and>
   status job_pending = Pending \<and> status (job_pending\<lparr>status := Failed\<rparr>) = Failed"
proof -
  have a: "run (run_two_reports @ [ProgressLands 0]) init_sys = sys_reordered"
    by (simp add: run_append run_two_reports_eq sys_reordered_def)
  have b: "run (run_start_rejected @ [TaskCatch 1]) init_sys = sys_never_processing"
    by (simp add: run_append run_start_rejected_eq sys_never_processing_def)
  show ?thesis
    unfolding a b run_two_reports_eq run_start_rejected_eq
    by (simp add: sys_reordered_eq sys_two_reports_eq sys_start_rejected_eq
        sys_never_processing_eq sys_encoder_eq sys_job_eq getMergeJob_def job_processing_def
        job_pending_def)
qed

section \<open>Exceptions in the background task\<close>

text \<open>
  An exception inside the \<^verbatim>\<open>try\<close> block takes the closure to the \<^verbatim>\<open>catch\<close> block and leaves
  the store as it is. When the write of the \<^verbatim>\<open>catch\<close> block is applied, the job has status
  failed, its progress and its other fields are as they were, no other job changes, and the
  closure returns.
\<close>

lemma task_fail_reaches_catch:
  assumes "tasks s jid = Some (Scheduled fileIds fmt) \<or>
           tasks s jid = Some (Resolving fileIds fmt) \<or>
           tasks s jid = Some (Encoding filePaths outputFilename)"
  shows "tasks (exec (TaskFail jid) s) jid = Some Catching \<and>
         store (exec (TaskFail jid) s) = store s \<and>
         unhandled (exec (TaskFail jid) s) = unhandled s"
  using assms by (auto simp: task_fail_def)

lemma task_catch_sets_failed:
  assumes "tasks s jid = Some Catching"
  shows "tasks (exec (TaskCatch jid) s) jid = Some Finished \<and>
         unhandled (exec (TaskCatch jid) s) = unhandled s \<and>
         getMergeJob (store (exec (TaskCatch jid) s)) jid
           = map_option (\<lambda>j. j\<lparr>status := Failed\<rparr>) (getMergeJob (store s) jid) \<and>
         (\<forall>i. i \<noteq> jid \<longrightarrow>
            getMergeJob (store (exec (TaskCatch jid) s)) i = getMergeJob (store s) i)"
proof -
  have failed: "set_fields (no_change\<lparr>set_status := Some Failed\<rparr>) = (\<lambda>j. j\<lparr>status := Failed\<rparr>)"
    by (simp add: fun_eq_iff set_fields_def no_change_def)
  show ?thesis
    using assms by (simp add: task_catch_def getMergeJob_update failed)
qed

lemma reachable_sys_crashed: "reachable sys_crashed"
  unfolding sys_crashed_def sys_thrown_def sys_encoder_def
  by (intro reachable_exec reachable_run reachable_sys_job)

lemma reachable_sys_report_rejected: "reachable sys_report_rejected"
  unfolding sys_report_rejected_def sys_encoder_def
  by (intro reachable_exec reachable_run reachable_sys_job)

lemma sys_report_rejected_eq:
  "sys_report_rejected = sys_encoder\<lparr>store := (store sys_encoder)
                                        \<lparr>mergeJobs := [job_processing\<lparr>status := Failed\<rparr>]\<rparr>,
                                      tasks := [1 \<mapsto> Finished], unhandled := 1\<rparr>"
  by (simp add: sys_report_rejected_def sys_encoder_eq encoder_task_def job_processing_def
      job_pending_def task_progress_def progress_rejected_def task_fail_def task_catch_def
      updateMergeJob_def set_fields_def no_change_def Let_def)

text \<open>
  C6 fails where the store rejects a write. The encoder throws while job 1 is processing
  with progress 57, and the store rejects the write of the \<^verbatim>\<open>catch\<close> block: the rejection
  leaves the closure unhandled, and the job stays processing, not failed. And when the
  store rejects a write of the progress callback, that rejection is handled by nothing,
  also in a run whose \<^verbatim>\<open>catch\<close> block then sets the job to failed.
\<close>

theorem catch_write_rejected_escapes:
  "reachable sys_crashed \<and>
   tasks sys_thrown 1 = Some Catching \<and> unhandled sys_thrown = 0 \<and>
   tasks sys_crashed 1 = Some Crashed \<and> unhandled sys_crashed = 1 \<and>
   getMergeJob (store sys_crashed) 1 = Some (job_processing\<lparr>progress := 57\<rparr>) \<and>
   status (job_processing\<lparr>progress := 57\<rparr>) \<noteq> Failed \<and>
   reachable sys_report_rejected \<and>
   getMergeJob (store sys_report_rejected) 1 = Some (job_processing\<lparr>status := Failed\<rparr>) \<and>
   unhandled sys_report_rejected = 1"
  using reachable_sys_crashed reachable_sys_report_rejected
  by (simp add: sys_crashed_eq sys_thrown_eq sys_encoder_eq sys_report_rejected_eq
      getMergeJob_def job_processing_def job_pending_def)

section \<open>Listing files and jobs\<close>

lemma sorted_desc:
  "sorted (map (\<lambda>x. - int (k x)) xs) \<Longrightarrow> sorted_wrt (\<lambda>a b. k b \<le> k a) xs"
  by (induction xs) auto

text \<open>
  C9. For a user (a non-empty user id), the list of audio files is exactly the user's
  records, newest upload first, and the list of merge jobs is exactly the user's jobs,
  newest first.
\<close>

theorem lists_by_owner_newest_first:
  assumes "userId \<noteq> []"
  shows "(\<exists>fs. get_mixmerge_files userId s = Resp 200 (FilesBody fs) \<and>
            mset fs = mset (filter (\<lambda>f. uploadedBy f = userId) (audioFiles (store s))) \<and>
            sorted_wrt (\<lambda>a b. uploadedAt b \<le> uploadedAt a) fs) \<and>
         (\<exists>js. get_mixmerge_jobs userId s = Resp 200 (JobsBody js) \<and>
            mset js = mset (filter (\<lambda>j. createdBy j = userId) (mergeJobs (store s))) \<and>
            sorted_wrt (\<lambda>a b. createdAt b \<le> createdAt a) js)"
proof -
  have t: "truthy (Some userId)" using assms by (simp add: truthy_def)
  have f: "sorted_wrt (\<lambda>a b. uploadedAt b \<le> uploadedAt a) (getAudioFiles (store s) (Some userId))"
    using t by (simp add: getAudioFiles_def Let_def sorted_desc sorted_filter)
  have j: "sorted_wrt (\<lambda>a b. createdAt b \<le> createdAt a) (getMergeJobs (store s) (Some userId))"
    using t by (simp add: getMergeJobs_def Let_def sorted_desc sorted_filter)
  have mf: "mset (getAudioFiles (store s) (Some userId))
            = mset (filter (\<lambda>f. uploadedBy f = userId) (audioFiles (store s)))"
    using t by (simp add: getAudioFiles_def Let_def)
  have mj: "mset (getMergeJobs (store s) (Some userId))
            = mset (filter (\<lambda>j. createdBy j = userId) (mergeJobs (store s)))"
    using t by (simp add: getMergeJobs_def Let_def)
  show ?thesis
    using f j mf mj by (simp add: get_mixmerge_files_def get_mixmerge_jobs_def)
qed

theorem lists_by_owner_newest_first_witness:
  "''user_1'' \<noteq> [] \<and>
   get_mixmerge_files ''user_1'' sys_job = Resp 200 (FilesBody [file_b, file_a]) \<and>
   get_mixmerge_jobs ''user_1'' sys_job = Resp 200 (JobsBody [job_pending]) \<and>
   get_mixmerge_jobs ''user_2'' sys_job = Resp 200 (JobsBody [])"
proof -
  have h: "''user_1'' \<noteq> []" by simp
  have f: "get_mixmerge_files ''user_1'' sys_job = Resp 200 (FilesBody [file_b, file_a])"
    by (simp add: get_mixmerge_files_def getAudioFiles_def truthy_def sys_job_eq files_table_def file_a_def file_b_def file_c_def Let_def)
  have j: "get_mixmerge_jobs ''user_1'' sys_job = Resp 200 (JobsBody [job_pending])"
    by (simp add: get_mixmerge_jobs_def getMergeJobs_def truthy_def sys_job_eq job_pending_def
        Let_def)
  have j2: "get_mixmerge_jobs ''user_2'' sys_job = Resp 200 (JobsBody [])"
    by (simp add: get_mixmerge_jobs_def getMergeJobs_def truthy_def sys_job_eq job_pending_def
        Let_def)
  show ?thesis
    using lists_by_owner_newest_first [OF h, of sys_job] h f j j2 by simp
qed

end
